theory Spec2Isabelle
  imports Main "HOL-Library.Word" "HOL-Library.Sublist"
begin

section \<open>Data model (package model)\<close>

text \<open>
  \<^verbatim>\<open>uuid.UUID\<close> is a 16-byte array; \<^verbatim>\<open>uuid.Nil\<close> is the all-zero value.
  \<^verbatim>\<open>time.Time\<close> is an instant, kept here as a count of nanoseconds (the call
  \<^verbatim>\<open>.UTC()\<close> changes the location of the value, not the instant).
  \<^verbatim>\<open>float64\<close> prices are only stored and copied by this program, never computed
  with, so a price is kept as its 64-bit IEEE pattern.
\<close>

type_synonym uuid = "128 word"
type_synonym Time = int
type_synonym float64 = "64 word"

definition uuid_Nil :: uuid where
  "uuid_Nil = 0"

text \<open>
  Modelled from the spec: the file declaring \<^verbatim>\<open>model.OrderStatus\<close>, \<^verbatim>\<open>model.Item\<close>,
  \<^verbatim>\<open>model.Order\<close>, \<^verbatim>\<open>model.OrderRepository\<close> and \<^verbatim>\<open>model.ErrOrderNotFound\<close> is
  not among the sources. The status is "one of {Open, Paid, Shipped, Cancelled, ...}"; the
  service and its test name \<^verbatim>\<open>Open\<close>, \<^verbatim>\<open>Paid\<close> and \<^verbatim>\<open>Cancelled\<close>. \<open>OtherStatus\<close>
  stands for the values the spec leaves open.
\<close>

datatype OrderStatus = Open | Paid | Shipped | Cancelled | OtherStatus nat

text \<open>
  Modelled from the spec: \<^verbatim>\<open>model.Item\<close>, with the fields the service writes
  (\<^verbatim>\<open>ID\<close>, \<^verbatim>\<open>ProductID\<close>, \<^verbatim>\<open>Price\<close>). The field \<^verbatim>\<open>ID\<close> is \<open>item_ID\<close> here.
\<close>

record Item =
  item_ID :: uuid
  ProductID :: uuid
  Price :: float64

text \<open>
  Modelled from the spec: \<^verbatim>\<open>model.Order\<close>, with the fields the service and the test
  repository read and write. \<^verbatim>\<open>DeletedAt\<close> is a \<^verbatim>\<open>*time.Time\<close>: \<open>None\<close> is nil.
  A nil \<^verbatim>\<open>Items\<close> slice is the empty list.
\<close>

record Order =
  ID :: uuid
  CustomerID :: uuid
  Status :: OrderStatus
  Items :: "Item list"
  CreatedAt :: Time
  UpdatedAt :: Time
  DeletedAt :: "Time option"

text \<open>The four event structs of \<^verbatim>\<open>model/event.go\<close>, as one sum, and their \<^verbatim>\<open>Type()\<close>.\<close>

datatype Event =
    OrderCreated uuid uuid
  | OrderItemsChanged uuid "uuid list" "uuid list"
  | OrderStatusChanged uuid OrderStatus
  | OrderDeleted uuid

fun event_Type :: "Event \<Rightarrow> string" where
  "event_Type (OrderCreated orderID customerID) = ''OrderCreated''"
| "event_Type (OrderItemsChanged orderID addedItems removedItems) = ''OrderItemsChanged''"
| "event_Type (OrderStatusChanged orderID newStatus) = ''OrderStatusChanged''"
| "event_Type (OrderDeleted orderID) = ''OrderDeleted''"

text \<open>
  Go's \<^verbatim>\<open>error\<close> values. \<open>error option\<close> is a returned \<^verbatim>\<open>error\<close>, \<open>None\<close> being nil.
  \<open>ErrInvalidOrderStatus\<close> and \<open>ErrItemNotFound\<close> are the two variables of
  \<^verbatim>\<open>service/order.go\<close>; \<open>ErrOrderNotFound\<close> is the one of package model that the test
  repository returns; \<open>ErrOther\<close> is any other error a collaborator may return.
\<close>

datatype error =
    ErrInvalidOrderStatus
  | ErrItemNotFound
  | ErrOrderNotFound
  | ErrOther string

section \<open>Program state\<close>

text \<open>
  The service works on \<^verbatim>\<open>*model.Order\<close> pointers, and the test repository keeps the
  pointers it is given, so the objects live in an explicit heap: a \<open>ref\<close> is the address
  of an \<^verbatim>\<open>Order\<close> object, \<open>heap\<close> gives the object at each address and \<open>nextref\<close> is
  the address the next allocation returns. \<open>clock\<close> holds the readings that the coming
  calls of \<^verbatim>\<open>time.Now()\<close> return, the next one first. \<open>ext\<close> is the private state of
  the collaborators behind the two interfaces.
\<close>

type_synonym ref = nat

record 'x state =
  heap :: "ref \<Rightarrow> Order"
  nextref :: ref
  clock :: "nat \<Rightarrow> Time"
  ext :: 'x

definition time_Now :: "'x state \<Rightarrow> Time \<times> 'x state" where
  "time_Now s = (clock s 0, s\<lparr>clock := (\<lambda>n. clock s (Suc n))\<rparr>)"

text \<open>\<^verbatim>\<open>&model.Order{...}\<close>: a new object at a fresh address.\<close>

definition new_Order :: "Order \<Rightarrow> 'x state \<Rightarrow> ref \<times> 'x state" where
  "new_Order v s = (nextref s, s\<lparr>heap := (heap s)(nextref s := v), nextref := Suc (nextref s)\<rparr>)"

text \<open>An assignment \<^verbatim>\<open>order.F = v\<close> through the pointer \<open>p\<close>.\<close>

definition assign :: "ref \<Rightarrow> (Order \<Rightarrow> Order) \<Rightarrow> 'x state \<Rightarrow> 'x state" where
  "assign p f s = s\<lparr>heap := (heap s)(p := f (heap s p))\<rparr>"

section \<open>The collaborator interfaces\<close>

text \<open>
  Modelled from the spec: the interface \<^verbatim>\<open>model.OrderRepository\<close> is declared in the
  missing file; the spec gives \<^verbatim>\<open>NextID() -> identifier | Error\<close>,
  \<^verbatim>\<open>Store(order) -> ok | Error\<close>, \<^verbatim>\<open>Find(id) -> order | NotFoundError\<close> and
  \<^verbatim>\<open>Delete(id) -> ok | NotFoundError\<close>, and the service and the test repository give
  the Go signatures. A method is a function on the program state. \<^verbatim>\<open>NextID\<close> and
  \<^verbatim>\<open>Find\<close> return a value or an error (\<open>Inl\<close>): the service never reads the value next
  to a non-nil error.
\<close>

record 'x OrderRepository =
  NextID :: "'x state \<Rightarrow> (error + uuid) \<times> 'x state"
  Store :: "ref \<Rightarrow> 'x state \<Rightarrow> error option \<times> 'x state"
  Find :: "uuid \<Rightarrow> 'x state \<Rightarrow> (error + ref) \<times> 'x state"
  Delete :: "uuid \<Rightarrow> 'x state \<Rightarrow> error option \<times> 'x state"

text \<open>\<^verbatim>\<open>service.EventDispatcher\<close>.\<close>

record 'x EventDispatcher =
  Dispatch :: "Event \<Rightarrow> 'x state \<Rightarrow> error option \<times> 'x state"

section \<open>The order service (service/order.go)\<close>

record 'x orderService =
  repo :: "'x OrderRepository"
  dispatcher :: "'x EventDispatcher"

definition NewOrderService :: "'x OrderRepository \<Rightarrow> 'x EventDispatcher \<Rightarrow> 'x orderService" where
  "NewOrderService r d = \<lparr>repo = r, dispatcher = d\<rparr>"

text \<open>
  Every operation returns three things: what the Go method returns, the program state it
  leaves, and the events it handed to \<^verbatim>\<open>Dispatch\<close>, in call order (whatever
  \<^verbatim>\<open>Dispatch\<close> answered). \<^verbatim>\<open>CreateOrder\<close> and \<^verbatim>\<open>AddItem\<close> return a pair
  \<^verbatim>\<open>(uuid.UUID, error)\<close>, the other three an \<^verbatim>\<open>error\<close>.
\<close>

definition outcome :: "'r \<times> 's \<times> Event list \<Rightarrow> 'r" where
  "outcome res = fst res"

definition after :: "'r \<times> 's \<times> Event list \<Rightarrow> 's" where
  "after res = fst (snd res)"

definition dispatched :: "'r \<times> 's \<times> Event list \<Rightarrow> Event list" where
  "dispatched res = snd (snd res)"

definition CreateOrder ::
  "'x orderService \<Rightarrow> uuid \<Rightarrow> 'x state \<Rightarrow> (uuid \<times> error option) \<times> 'x state \<times> Event list" where
  "CreateOrder svc customerID s =
     (case NextID (repo svc) s of
        (Inl err, s1) \<Rightarrow> ((uuid_Nil, Some err), s1, [])
      | (Inr orderID, s1) \<Rightarrow>
          (case time_Now s1 of (currentTime, s2) \<Rightarrow>
            (case new_Order \<lparr>ID = orderID, CustomerID = customerID, Status = Open, Items = [],
                             CreatedAt = currentTime, UpdatedAt = currentTime,
                             DeletedAt = None\<rparr> s2 of (order, s3) \<Rightarrow>
              (case Store (repo svc) order s3 of
                 (Some err, s4) \<Rightarrow> ((uuid_Nil, Some err), s4, [])
               | (None, s4) \<Rightarrow>
                   (case Dispatch (dispatcher svc) (OrderCreated orderID customerID) s4 of
                      (derr, s5) \<Rightarrow>
                        ((orderID, derr), s5, [OrderCreated orderID customerID]))))))"

definition DeleteOrder ::
  "'x orderService \<Rightarrow> uuid \<Rightarrow> 'x state \<Rightarrow> error option \<times> 'x state \<times> Event list" where
  "DeleteOrder svc orderID s =
     (case Find (repo svc) orderID s of
        (Inl err, s1) \<Rightarrow> (Some err, s1, [])
      | (Inr _, s1) \<Rightarrow>
          (case Delete (repo svc) orderID s1 of
             (Some err, s2) \<Rightarrow> (Some err, s2, [])
           | (None, s2) \<Rightarrow>
               (case Dispatch (dispatcher svc) (OrderDeleted orderID) s2 of
                  (derr, s3) \<Rightarrow> (derr, s3, [OrderDeleted orderID]))))"

definition SetStatus ::
  "'x orderService \<Rightarrow> uuid \<Rightarrow> OrderStatus \<Rightarrow> 'x state \<Rightarrow> error option \<times> 'x state \<times> Event list" where
  "SetStatus svc orderID status s =
     (case Find (repo svc) orderID s of
        (Inl err, s1) \<Rightarrow> (Some err, s1, [])
      | (Inr order, s1) \<Rightarrow>
          if Status (heap s1 order) = Cancelled then (Some ErrInvalidOrderStatus, s1, [])
          else
            (case time_Now (assign order (\<lambda>v. v\<lparr>Status := status\<rparr>) s1) of (now, s2) \<Rightarrow>
              (case Store (repo svc) order (assign order (\<lambda>v. v\<lparr>UpdatedAt := now\<rparr>) s2) of
                 (Some err, s3) \<Rightarrow> (Some err, s3, [])
               | (None, s3) \<Rightarrow>
                   (case Dispatch (dispatcher svc) (OrderStatusChanged orderID status) s3 of
                      (derr, s4) \<Rightarrow> (derr, s4, [OrderStatusChanged orderID status])))))"

definition AddItem ::
  "'x orderService \<Rightarrow> uuid \<Rightarrow> uuid \<Rightarrow> float64 \<Rightarrow> 'x state
     \<Rightarrow> (uuid \<times> error option) \<times> 'x state \<times> Event list" where
  "AddItem svc orderID productID price s =
     (case Find (repo svc) orderID s of
        (Inl err, s1) \<Rightarrow> ((uuid_Nil, Some err), s1, [])
      | (Inr order, s1) \<Rightarrow>
          if Status (heap s1 order) \<noteq> Open then ((uuid_Nil, Some ErrInvalidOrderStatus), s1, [])
          else
            (case NextID (repo svc) s1 of
               (Inl err, s2) \<Rightarrow> ((uuid_Nil, Some err), s2, [])
             | (Inr itemID, s2) \<Rightarrow>
                 (case time_Now
                         (assign order
                            (\<lambda>v. v\<lparr>Items := Items v @
                               [\<lparr>item_ID = itemID, ProductID = productID, Price = price\<rparr>]\<rparr>) s2) of
                    (now, s3) \<Rightarrow>
                      (case Store (repo svc) order
                              (assign order (\<lambda>v. v\<lparr>UpdatedAt := now\<rparr>) s3) of
                         (Some err, s4) \<Rightarrow> ((uuid_Nil, Some err), s4, [])
                       | (None, s4) \<Rightarrow>
                           (case Dispatch (dispatcher svc)
                                   (OrderItemsChanged orderID [itemID] []) s4 of
                              (derr, s5) \<Rightarrow>
                                ((itemID, derr), s5, [OrderItemsChanged orderID [itemID] []]))))))"

text \<open>
  The scan of \<^verbatim>\<open>DeleteItem\<close>: \<^verbatim>\<open>itemIndex\<close> starts at -1 and becomes the index of
  the first item whose \<^verbatim>\<open>ID\<close> is \<^verbatim>\<open>itemID\<close>, where the loop breaks. \<open>i\<close> is the index
  of the head of the items still to visit.
\<close>

fun scan_items :: "nat \<Rightarrow> uuid \<Rightarrow> Item list \<Rightarrow> int" where
  "scan_items i itemID [] = -1"
| "scan_items i itemID (item # rest) =
     (if item_ID item = itemID then int i else scan_items (Suc i) itemID rest)"

definition DeleteItem ::
  "'x orderService \<Rightarrow> uuid \<Rightarrow> uuid \<Rightarrow> 'x state \<Rightarrow> error option \<times> 'x state \<times> Event list" where
  "DeleteItem svc orderID itemID s =
     (case Find (repo svc) orderID s of
        (Inl err, s1) \<Rightarrow> (Some err, s1, [])
      | (Inr order, s1) \<Rightarrow>
          if Status (heap s1 order) \<noteq> Open then (Some ErrInvalidOrderStatus, s1, [])
          else
            (let itemIndex = scan_items 0 itemID (Items (heap s1 order)) in
             if itemIndex = -1 then (Some ErrItemNotFound, s1, [])
             else
               (case time_Now
                       (assign order
                          (\<lambda>v. v\<lparr>Items := take (nat itemIndex) (Items v) @
                                            drop (nat (itemIndex + 1)) (Items v)\<rparr>) s1) of
                  (now, s2) \<Rightarrow>
                    (case Store (repo svc) order
                            (assign order (\<lambda>v. v\<lparr>UpdatedAt := now\<rparr>) s2) of
                       (Some err, s3) \<Rightarrow> (Some err, s3, [])
                     | (None, s3) \<Rightarrow>
                         (case Dispatch (dispatcher svc)
                                 (OrderItemsChanged orderID [] [itemID]) s3 of
                            (derr, s4) \<Rightarrow>
                              (derr, s4, [OrderItemsChanged orderID [] [itemID]]))))))"

text \<open>
  The pointer and the state with which each operation calls \<^verbatim>\<open>Store\<close>, given the state
  \<open>s1\<close> (or \<open>s2\<close>) that the preceding repository call left: the steps of the
  operation between that call and \<^verbatim>\<open>Store\<close>, which involve no collaborator. They
  serve to state what happens when \<^verbatim>\<open>Store\<close> or \<^verbatim>\<open>Dispatch\<close> fails.
\<close>

definition CreateOrder_stores :: "uuid \<Rightarrow> uuid \<Rightarrow> 'x state \<Rightarrow> ref \<times> 'x state" where
  "CreateOrder_stores orderID customerID s1 =
     new_Order \<lparr>ID = orderID, CustomerID = customerID, Status = Open, Items = [],
                CreatedAt = fst (time_Now s1), UpdatedAt = fst (time_Now s1),
                DeletedAt = None\<rparr> (snd (time_Now s1))"

definition SetStatus_stores :: "ref \<Rightarrow> OrderStatus \<Rightarrow> 'x state \<Rightarrow> 'x state" where
  "SetStatus_stores order status s1 =
     assign order
       (\<lambda>v. v\<lparr>UpdatedAt := fst (time_Now (assign order (\<lambda>v. v\<lparr>Status := status\<rparr>) s1))\<rparr>)
       (snd (time_Now (assign order (\<lambda>v. v\<lparr>Status := status\<rparr>) s1)))"

definition AddItem_stores :: "ref \<Rightarrow> uuid \<Rightarrow> uuid \<Rightarrow> float64 \<Rightarrow> 'x state \<Rightarrow> 'x state" where
  "AddItem_stores order itemID productID price s2 =
     assign order
       (\<lambda>v. v\<lparr>UpdatedAt := fst (time_Now (assign order
          (\<lambda>v. v\<lparr>Items := Items v @
             [\<lparr>item_ID = itemID, ProductID = productID, Price = price\<rparr>]\<rparr>) s2))\<rparr>)
       (snd (time_Now (assign order
          (\<lambda>v. v\<lparr>Items := Items v @
             [\<lparr>item_ID = itemID, ProductID = productID, Price = price\<rparr>]\<rparr>) s2)))"

definition DeleteItem_stores :: "ref \<Rightarrow> uuid \<Rightarrow> 'x state \<Rightarrow> 'x state" where
  "DeleteItem_stores order itemID s1 =
     assign order
       (\<lambda>v. v\<lparr>UpdatedAt := fst (time_Now (assign order
          (\<lambda>v. v\<lparr>Items := take (nat (scan_items 0 itemID (Items (heap s1 order)))) (Items v) @
             drop (nat (scan_items 0 itemID (Items (heap s1 order)) + 1)) (Items v)\<rparr>) s1))\<rparr>)
       (snd (time_Now (assign order
          (\<lambda>v. v\<lparr>Items := take (nat (scan_items 0 itemID (Items (heap s1 order)))) (Items v) @
             drop (nat (scan_items 0 itemID (Items (heap s1 order)) + 1)) (Items v)\<rparr>) s1)))"

section \<open>The collaborators of the test suite (tests/orderservice_test.go)\<close>

text \<open>
  \<open>store\<close> is the map of \<^verbatim>\<open>mockOrderRepository\<close>, from identifiers to pointers;
  \<open>events\<close> is the slice of \<^verbatim>\<open>mockEventDispatcher\<close>. \<open>uuid_NewV7\<close> holds the results
  that the coming calls of the library function \<^verbatim>\<open>uuid.NewV7()\<close> return, the next one
  first. The mutexes guard against concurrent callers and have no effect on one caller.
\<close>

record mocks =
  store :: "uuid \<rightharpoonup> ref"
  events :: "Event list"
  uuid_NewV7 :: "nat \<Rightarrow> error + uuid"

definition mock_NextID :: "mocks state \<Rightarrow> (error + uuid) \<times> mocks state" where
  "mock_NextID s =
     (uuid_NewV7 (ext s) 0, s\<lparr>ext := (ext s)\<lparr>uuid_NewV7 := (\<lambda>n. uuid_NewV7 (ext s) (Suc n))\<rparr>\<rparr>)"

definition mock_Store :: "ref \<Rightarrow> mocks state \<Rightarrow> error option \<times> mocks state" where
  "mock_Store order s =
     (None, s\<lparr>ext := (ext s)\<lparr>store := (store (ext s))(ID (heap s order) \<mapsto> order)\<rparr>\<rparr>)"

definition mock_Find :: "uuid \<Rightarrow> mocks state \<Rightarrow> (error + ref) \<times> mocks state" where
  "mock_Find id' s =
     (case store (ext s) id' of
        None \<Rightarrow> (Inl ErrOrderNotFound, s)
      | Some order \<Rightarrow>
          if DeletedAt (heap s order) \<noteq> None then (Inl ErrOrderNotFound, s)
          else (Inr order, s))"

definition mock_Delete :: "uuid \<Rightarrow> mocks state \<Rightarrow> error option \<times> mocks state" where
  "mock_Delete id' s =
     (case store (ext s) id' of
        None \<Rightarrow> (Some ErrOrderNotFound, s)
      | Some order \<Rightarrow>
          if DeletedAt (heap s order) \<noteq> None then (Some ErrOrderNotFound, s)
          else
            (case time_Now s of (now, s1) \<Rightarrow>
               (None, assign order (\<lambda>v. v\<lparr>DeletedAt := Some now\<rparr>) s1)))"

definition mock_Dispatch :: "Event \<Rightarrow> mocks state \<Rightarrow> error option \<times> mocks state" where
  "mock_Dispatch event s = (None, s\<lparr>ext := (ext s)\<lparr>events := events (ext s) @ [event]\<rparr>\<rparr>)"

definition mockOrderRepository :: "mocks OrderRepository" where
  "mockOrderRepository =
     \<lparr>NextID = mock_NextID, Store = mock_Store, Find = mock_Find, Delete = mock_Delete\<rparr>"

definition mockEventDispatcher :: "mocks EventDispatcher" where
  "mockEventDispatcher = \<lparr>Dispatch = mock_Dispatch\<rparr>"

text \<open>The \<^verbatim>\<open>setup\<close> of the test suite: the service over the two test collaborators.\<close>

definition setup_svc :: "mocks orderService" where
  "setup_svc = NewOrderService mockOrderRepository mockEventDispatcher"

text \<open>
  The condition under which \<^verbatim>\<open>Find\<close> and \<^verbatim>\<open>Delete\<close> of the test repository answer
  \<^verbatim>\<open>ErrOrderNotFound\<close>: \<^verbatim>\<open>!ok || order.DeletedAt != nil\<close>.
\<close>

definition missing :: "uuid \<Rightarrow> mocks state \<Rightarrow> bool" where
  "missing id' s =
     (case store (ext s) id' of None \<Rightarrow> True | Some order \<Rightarrow> DeletedAt (heap s order) \<noteq> None)"

section \<open>Further test doubles and a sample state\<close>

text \<open>
  The collaborators of the test suite never fail in \<^verbatim>\<open>Store\<close> and \<^verbatim>\<open>Dispatch\<close>. The
  doubles below return an error and leave the state alone; they serve to run the error
  paths of the service on concrete inputs. \<open>racing_Find\<close> is the lookup of the test
  repository followed, before the caller goes on, by another caller's \<^verbatim>\<open>Delete\<close> of
  the same record.
\<close>

definition failing_Store :: "ref \<Rightarrow> 'x state \<Rightarrow> error option \<times> 'x state" where
  "failing_Store order s = (Some (ErrOther ''store failed''), s)"

definition failing_Delete :: "uuid \<Rightarrow> 'x state \<Rightarrow> error option \<times> 'x state" where
  "failing_Delete id' s = (Some (ErrOther ''delete failed''), s)"

definition failing_Dispatch :: "Event \<Rightarrow> 'x state \<Rightarrow> error option \<times> 'x state" where
  "failing_Dispatch event s = (Some (ErrOther ''dispatch failed''), s)"

definition racing_Find :: "uuid \<Rightarrow> mocks state \<Rightarrow> (error + ref) \<times> mocks state" where
  "racing_Find id' s = (fst (mock_Find id' s), snd (mock_Delete id' (snd (mock_Find id' s))))"

text \<open>
  The service of the test suite with a repository whose \<^verbatim>\<open>Store\<close> and \<^verbatim>\<open>Delete\<close>
  fail, and with a dispatcher that fails.
\<close>

definition svc_failing_store :: "mocks orderService" where
  "svc_failing_store =
     NewOrderService (mockOrderRepository\<lparr>Store := failing_Store, Delete := failing_Delete\<rparr>)
       mockEventDispatcher"

definition svc_failing_dispatch :: "mocks orderService" where
  "svc_failing_dispatch = NewOrderService mockOrderRepository \<lparr>Dispatch = failing_Dispatch\<rparr>"

definition item_a :: Item where
  "item_a = \<lparr>item_ID = 11, ProductID = 21, Price = 100\<rparr>"

definition item_b :: Item where
  "item_b = \<lparr>item_ID = 12, ProductID = 22, Price = 200\<rparr>"

definition item_c :: Item where
  "item_c = \<lparr>item_ID = 11, ProductID = 23, Price = 300\<rparr>"

definition order_open :: Order where
  "order_open = \<lparr>ID = 1, CustomerID = 9, Status = Open, Items = [item_a, item_b, item_c],
     CreatedAt = 10, UpdatedAt = 20, DeletedAt = None\<rparr>"

definition order_paid :: Order where
  "order_paid = \<lparr>ID = 2, CustomerID = 9, Status = Paid, Items = [item_b],
     CreatedAt = 11, UpdatedAt = 21, DeletedAt = None\<rparr>"

definition order_cancelled :: Order where
  "order_cancelled = \<lparr>ID = 3, CustomerID = 9, Status = Cancelled, Items = [],
     CreatedAt = 12, UpdatedAt = 22, DeletedAt = None\<rparr>"

definition order_deleted :: Order where
  "order_deleted = \<lparr>ID = 4, CustomerID = 9, Status = Open, Items = [],
     CreatedAt = 13, UpdatedAt = 23, DeletedAt = Some 30\<rparr>"

text \<open>
  Four orders filed under the identifiers 1 to 4 (open with three items, two of them
  sharing the item identifier 11; paid; cancelled; soft-deleted), the clock at 100, and
  \<^verbatim>\<open>uuid.NewV7()\<close> about to return 50, 51, ...
\<close>

definition test_state :: "mocks state" where
  "test_state =
     \<lparr>heap = (\<lambda>_. order_open)(1 := order_paid, 2 := order_cancelled, 3 := order_deleted),
      nextref = 4,
      clock = (\<lambda>n. 100 + int n),
      ext = \<lparr>store = [1 \<mapsto> 0, 2 \<mapsto> 1, 3 \<mapsto> 2, 4 \<mapsto> 3], events = [],
              uuid_NewV7 = (\<lambda>n. Inr (50 + of_nat n))\<rparr>\<rparr>"

text \<open>The same state with an identifier generator that fails.\<close>

definition no_entropy_state :: "mocks state" where
  "no_entropy_state =
     test_state\<lparr>ext := (ext test_state)\<lparr>uuid_NewV7 := (\<lambda>n. Inl (ErrOther ''no entropy''))\<rparr>\<rparr>"

section \<open>Basic facts\<close>

lemma triple_simps [simp]:
  "outcome (a, b, c) = a" "after (a, b, c) = b" "dispatched (a, b, c) = c"
  by (simp_all add: outcome_def after_def dispatched_def)

lemma svc_simps:
  "Find (repo setup_svc) = mock_Find"
  "NextID (repo setup_svc) = mock_NextID"
  "Store (repo setup_svc) = mock_Store"
  "Delete (repo setup_svc) = mock_Delete"
  "Dispatch (dispatcher setup_svc) = mock_Dispatch"
  by (simp_all add: setup_svc_def NewOrderService_def mockOrderRepository_def
      mockEventDispatcher_def)

subsection \<open>The scan for an item\<close>

lemma scan_items_absent:
  "(scan_items i itemID xs = -1) = (itemID \<notin> item_ID ` set xs)"
proof (induction xs arbitrary: i)
  case Nil
  show ?case by simp
next
  case (Cons x xs)
  show ?case using Cons.IH [of "Suc i"] by auto
qed

lemma scan_items_first:
  "itemID \<notin> item_ID ` set ys \<Longrightarrow> item_ID it = itemID \<Longrightarrow>
   scan_items i itemID (ys @ it # zs) = int (i + length ys)"
  by (induction ys arbitrary: i) auto

lemma first_match:
  assumes "itemID \<in> item_ID ` set xs"
  shows "\<exists>ys it zs. xs = ys @ it # zs \<and> item_ID it = itemID \<and> itemID \<notin> item_ID ` set ys"
proof -
  from assms have "\<exists>x \<in> set xs. item_ID x = itemID" by auto
  then obtain ys x zs where "xs = ys @ x # zs" "item_ID x = itemID"
      "\<forall>y \<in> set ys. item_ID y \<noteq> itemID"
    using split_list_first_prop [of xs "\<lambda>x. item_ID x = itemID"] by blast
  moreover from this(3) have "itemID \<notin> item_ID ` set ys" by auto
  ultimately show ?thesis by blast
qed

subsection \<open>Lookups in the test repository\<close>

lemma mock_Find_live:
  "store (ext s) orderID = Some p \<Longrightarrow> DeletedAt (heap s p) = None \<Longrightarrow>
   mock_Find orderID s = (Inr p, s)"
  by (simp add: mock_Find_def)

lemma mock_Find_missing:
  "missing orderID s \<Longrightarrow> mock_Find orderID s = (Inl ErrOrderNotFound, s)"
  by (auto simp add: missing_def mock_Find_def split: option.splits)

lemma mock_Delete_missing:
  "missing orderID s \<Longrightarrow> mock_Delete orderID s = (Some ErrOrderNotFound, s)"
  by (auto simp add: missing_def mock_Delete_def split: option.splits)

lemma mock_Find_dead:
  "store (ext s) orderID = Some p \<Longrightarrow> DeletedAt (heap s p) \<noteq> None \<Longrightarrow>
   Find (repo setup_svc) orderID s = (Inl ErrOrderNotFound, s)"
  by (auto simp add: svc_simps mock_Find_def)

subsection \<open>A failed lookup ends every operation that starts with one\<close>

lemma Find_fails_DeleteOrder:
  "Find (repo svc) orderID s = (Inl e, s1) \<Longrightarrow> DeleteOrder svc orderID s = (Some e, s1, [])"
  by (simp add: DeleteOrder_def)

lemma Find_fails_SetStatus:
  "Find (repo svc) orderID s = (Inl e, s1) \<Longrightarrow>
   SetStatus svc orderID status s = (Some e, s1, [])"
  by (simp add: SetStatus_def)

lemma Find_fails_AddItem:
  "Find (repo svc) orderID s = (Inl e, s1) \<Longrightarrow>
   AddItem svc orderID productID price s = ((uuid_Nil, Some e), s1, [])"
  by (simp add: AddItem_def)

lemma Find_fails_DeleteItem:
  "Find (repo svc) orderID s = (Inl e, s1) \<Longrightarrow>
   DeleteItem svc orderID itemID s = (Some e, s1, [])"
  by (simp add: DeleteItem_def)

subsection \<open>The runs of the service over the test collaborators\<close>

lemma CreateOrder_mock_ok:
  assumes "uuid_NewV7 (ext s) 0 = Inr orderID"
  shows "CreateOrder setup_svc customerID s =
     ((orderID, None),
      s\<lparr>heap := (heap s)(nextref s := \<lparr>ID = orderID, CustomerID = customerID, Status = Open,
               Items = [], CreatedAt = clock s 0, UpdatedAt = clock s 0, DeletedAt = None\<rparr>),
        nextref := Suc (nextref s),
        clock := (\<lambda>n. clock s (Suc n)),
        ext := (ext s)\<lparr>store := (store (ext s))(orderID \<mapsto> nextref s),
                 events := events (ext s) @ [OrderCreated orderID customerID],
                 uuid_NewV7 := (\<lambda>n. uuid_NewV7 (ext s) (Suc n))\<rparr>\<rparr>,
      [OrderCreated orderID customerID])"
  using assms
  by (simp add: CreateOrder_def svc_simps mock_NextID_def time_Now_def new_Order_def
      mock_Store_def mock_Dispatch_def)

lemma CreateOrder_mock_fail:
  assumes "uuid_NewV7 (ext s) 0 = Inl err"
  shows "CreateOrder setup_svc customerID s =
     ((uuid_Nil, Some err),
      s\<lparr>ext := (ext s)\<lparr>uuid_NewV7 := (\<lambda>n. uuid_NewV7 (ext s) (Suc n))\<rparr>\<rparr>, [])"
  using assms by (simp add: CreateOrder_def svc_simps mock_NextID_def)

lemma DeleteOrder_mock_live:
  assumes "store (ext s) orderID = Some p" and "DeletedAt (heap s p) = None"
  shows "DeleteOrder setup_svc orderID s =
     (None,
      s\<lparr>heap := (heap s)(p := (heap s p)\<lparr>DeletedAt := Some (clock s 0)\<rparr>),
        clock := (\<lambda>n. clock s (Suc n)),
        ext := (ext s)\<lparr>events := events (ext s) @ [OrderDeleted orderID]\<rparr>\<rparr>,
      [OrderDeleted orderID])"
  using assms
  by (simp add: DeleteOrder_def svc_simps mock_Find_live mock_Delete_def time_Now_def assign_def
      mock_Dispatch_def)

lemma SetStatus_mock_live:
  assumes "store (ext s) orderID = Some p" and "DeletedAt (heap s p) = None"
    and "Status (heap s p) \<noteq> Cancelled"
  shows "SetStatus setup_svc orderID status s =
     (None,
      s\<lparr>heap := (heap s)(p := (heap s p)\<lparr>Status := status, UpdatedAt := clock s 0\<rparr>),
        clock := (\<lambda>n. clock s (Suc n)),
        ext := (ext s)\<lparr>store := (store (ext s))(ID (heap s p) \<mapsto> p),
                 events := events (ext s) @ [OrderStatusChanged orderID status]\<rparr>\<rparr>,
      [OrderStatusChanged orderID status])"
  using assms
  by (simp add: SetStatus_def svc_simps mock_Find_live time_Now_def assign_def
      mock_Store_def mock_Dispatch_def)

lemma SetStatus_mock_cancelled:
  assumes "store (ext s) orderID = Some p" and "DeletedAt (heap s p) = None"
    and "Status (heap s p) = Cancelled"
  shows "SetStatus setup_svc orderID status s = (Some ErrInvalidOrderStatus, s, [])"
  using assms by (simp add: SetStatus_def svc_simps mock_Find_live)

lemma AddItem_mock_open:
  assumes "store (ext s) orderID = Some p" and "DeletedAt (heap s p) = None"
    and "Status (heap s p) = Open" and "uuid_NewV7 (ext s) 0 = Inr itemID"
  shows "AddItem setup_svc orderID productID price s =
     ((itemID, None),
      s\<lparr>heap := (heap s)(p := (heap s p)\<lparr>Items := Items (heap s p) @
               [\<lparr>item_ID = itemID, ProductID = productID, Price = price\<rparr>],
               UpdatedAt := clock s 0\<rparr>),
        clock := (\<lambda>n. clock s (Suc n)),
        ext := (ext s)\<lparr>store := (store (ext s))(ID (heap s p) \<mapsto> p),
                 events := events (ext s) @ [OrderItemsChanged orderID [itemID] []],
                 uuid_NewV7 := (\<lambda>n. uuid_NewV7 (ext s) (Suc n))\<rparr>\<rparr>,
      [OrderItemsChanged orderID [itemID] []])"
  using assms
  by (simp add: AddItem_def svc_simps mock_Find_live mock_NextID_def time_Now_def assign_def
      mock_Store_def mock_Dispatch_def)


lemma AddItem_mock_not_open:
  assumes "store (ext s) orderID = Some p" and "DeletedAt (heap s p) = None"
    and "Status (heap s p) \<noteq> Open"
  shows "AddItem setup_svc orderID productID price s =
     ((uuid_Nil, Some ErrInvalidOrderStatus), s, [])"
  using assms by (simp add: AddItem_def svc_simps mock_Find_live)

lemma DeleteItem_mock_absent:
  assumes "store (ext s) orderID = Some p" and "DeletedAt (heap s p) = None"
    and "Status (heap s p) = Open"
    and "itemID \<notin> item_ID ` set (Items (heap s p))"
  shows "DeleteItem setup_svc orderID itemID s = (Some ErrItemNotFound, s, [])"
  using assms by (simp add: DeleteItem_def svc_simps mock_Find_live scan_items_absent)

lemma DeleteItem_mock_present:
  assumes "store (ext s) orderID = Some p" and "DeletedAt (heap s p) = None"
    and "Status (heap s p) = Open"
    and "Items (heap s p) = ys @ it # zs" and "itemID \<notin> item_ID ` set ys"
    and "item_ID it = itemID"
  shows "DeleteItem setup_svc orderID itemID s =
     (None,
      s\<lparr>heap := (heap s)(p := (heap s p)\<lparr>Items := ys @ zs, UpdatedAt := clock s 0\<rparr>),
        clock := (\<lambda>n. clock s (Suc n)),
        ext := (ext s)\<lparr>store := (store (ext s))(ID (heap s p) \<mapsto> p),
                 events := events (ext s) @ [OrderItemsChanged orderID [] [itemID]]\<rparr>\<rparr>,
      [OrderItemsChanged orderID [] [itemID]])"
proof -
  have idx: "scan_items 0 itemID (Items (heap s p)) = int (length ys)"
    using assms(4-6) scan_items_first [of itemID ys it 0 zs] by simp
  have "nat (int (length ys) + 1) = Suc (length ys)" by simp
  with assms idx show ?thesis
    by (simp add: DeleteItem_def svc_simps mock_Find_live time_Now_def assign_def
      mock_Store_def mock_Dispatch_def)
qed

subsection \<open>The steps of every operation, for any repository and dispatcher\<close>

lemma scan_items_present:
  "\<exists>item \<in> set xs. item_ID item = itemID \<Longrightarrow> scan_items i itemID xs \<noteq> -1"
  by (auto simp add: scan_items_absent)

lemma CreateOrder_steps:
  fixes svc :: "'x orderService"
  shows "(NextID (repo svc) s = (Inl e, sa) \<longrightarrow>
        CreateOrder svc customerID s = ((uuid_Nil, Some e), sa, []))
   \<and> (NextID (repo svc) s = (Inr newID, sa) \<and>
      Store (repo svc) (fst (CreateOrder_stores newID customerID sa))
        (snd (CreateOrder_stores newID customerID sa)) = (Some e, sb) \<longrightarrow>
        CreateOrder svc customerID s = ((uuid_Nil, Some e), sb, []))
   \<and> (NextID (repo svc) s = (Inr newID, sa) \<and>
      Store (repo svc) (fst (CreateOrder_stores newID customerID sa))
        (snd (CreateOrder_stores newID customerID sa)) = (None, sb) \<and>
      Dispatch (dispatcher svc) (OrderCreated newID customerID) sb = (derr, sc) \<longrightarrow>
        CreateOrder svc customerID s = ((newID, derr), sc, [OrderCreated newID customerID]))"
  by (simp add: CreateOrder_def CreateOrder_stores_def split: prod.splits)

lemma DeleteOrder_steps:
  fixes svc :: "'x orderService"
  shows "(Find (repo svc) orderID s = (Inl e, sa) \<longrightarrow>
        DeleteOrder svc orderID s = (Some e, sa, []))
   \<and> (Find (repo svc) orderID s = (Inr order, sa) \<and>
      Delete (repo svc) orderID sa = (Some e, sb) \<longrightarrow>
        DeleteOrder svc orderID s = (Some e, sb, []))
   \<and> (Find (repo svc) orderID s = (Inr order, sa) \<and>
      Delete (repo svc) orderID sa = (None, sb) \<and>
      Dispatch (dispatcher svc) (OrderDeleted orderID) sb = (derr, sc) \<longrightarrow>
        DeleteOrder svc orderID s = (derr, sc, [OrderDeleted orderID]))"
  by (simp add: DeleteOrder_def)

lemma SetStatus_steps:
  fixes svc :: "'x orderService"
  shows "(Find (repo svc) orderID s = (Inl e, sa) \<longrightarrow>
        SetStatus svc orderID status s = (Some e, sa, []))
   \<and> (Find (repo svc) orderID s = (Inr order, sa) \<and> Status (heap sa order) \<noteq> Cancelled \<and>
      Store (repo svc) order (SetStatus_stores order status sa) = (Some e, sb) \<longrightarrow>
        SetStatus svc orderID status s = (Some e, sb, []))
   \<and> (Find (repo svc) orderID s = (Inr order, sa) \<and> Status (heap sa order) \<noteq> Cancelled \<and>
      Store (repo svc) order (SetStatus_stores order status sa) = (None, sb) \<and>
      Dispatch (dispatcher svc) (OrderStatusChanged orderID status) sb = (derr, sc) \<longrightarrow>
        SetStatus svc orderID status s = (derr, sc, [OrderStatusChanged orderID status]))"
  by (simp add: SetStatus_def SetStatus_stores_def split: prod.splits)

lemma AddItem_steps:
  fixes svc :: "'x orderService"
  shows "(Find (repo svc) orderID s = (Inl e, sa) \<longrightarrow>
        AddItem svc orderID productID price s = ((uuid_Nil, Some e), sa, []))
   \<and> (Find (repo svc) orderID s = (Inr order, sa) \<and> Status (heap sa order) = Open \<and>
      NextID (repo svc) sa = (Inl e, sb) \<longrightarrow>
        AddItem svc orderID productID price s = ((uuid_Nil, Some e), sb, []))
   \<and> (Find (repo svc) orderID s = (Inr order, sa) \<and> Status (heap sa order) = Open \<and>
      NextID (repo svc) sa = (Inr itemID, sb) \<and>
      Store (repo svc) order (AddItem_stores order itemID productID price sb) = (Some e, sc)
      \<longrightarrow>
        AddItem svc orderID productID price s = ((uuid_Nil, Some e), sc, []))
   \<and> (Find (repo svc) orderID s = (Inr order, sa) \<and> Status (heap sa order) = Open \<and>
      NextID (repo svc) sa = (Inr itemID, sb) \<and>
      Store (repo svc) order (AddItem_stores order itemID productID price sb) = (None, sc) \<and>
      Dispatch (dispatcher svc) (OrderItemsChanged orderID [itemID] []) sc = (derr, sd) \<longrightarrow>
        AddItem svc orderID productID price s =
          ((itemID, derr), sd, [OrderItemsChanged orderID [itemID] []]))"
  by (simp add: AddItem_def AddItem_stores_def split: prod.splits)

lemma DeleteItem_steps:
  fixes svc :: "'x orderService"
  shows "(Find (repo svc) orderID s = (Inl e, sa) \<longrightarrow>
        DeleteItem svc orderID itemID s = (Some e, sa, []))
   \<and> (Find (repo svc) orderID s = (Inr order, sa) \<and> Status (heap sa order) = Open \<and>
      (\<exists>item \<in> set (Items (heap sa order)). item_ID item = itemID) \<and>
      Store (repo svc) order (DeleteItem_stores order itemID sa) = (Some e, sb) \<longrightarrow>
        DeleteItem svc orderID itemID s = (Some e, sb, []))
   \<and> (Find (repo svc) orderID s = (Inr order, sa) \<and> Status (heap sa order) = Open \<and>
      (\<exists>item \<in> set (Items (heap sa order)). item_ID item = itemID) \<and>
      Store (repo svc) order (DeleteItem_stores order itemID sa) = (None, sb) \<and>
      Dispatch (dispatcher svc) (OrderItemsChanged orderID [] [itemID]) sb = (derr, sc) \<longrightarrow>
        DeleteItem svc orderID itemID s = (derr, sc, [OrderItemsChanged orderID [] [itemID]]))"
  by (simp add: DeleteItem_def DeleteItem_stores_def scan_items_present Let_def
      split: prod.splits)

subsection \<open>Evaluating runs on the sample state\<close>

lemma doubles_simps:
  "NextID (repo svc_failing_store) = mock_NextID"
  "Find (repo svc_failing_store) = mock_Find"
  "Store (repo svc_failing_store) = failing_Store"
  "Delete (repo svc_failing_store) = failing_Delete"
  "Dispatch (dispatcher svc_failing_store) = mock_Dispatch"
  "NextID (repo svc_failing_dispatch) = mock_NextID"
  "Find (repo svc_failing_dispatch) = mock_Find"
  "Store (repo svc_failing_dispatch) = mock_Store"
  "Delete (repo svc_failing_dispatch) = mock_Delete"
  "Dispatch (dispatcher svc_failing_dispatch) = failing_Dispatch"
  by (simp_all add: svc_failing_store_def svc_failing_dispatch_def NewOrderService_def
      mockOrderRepository_def mockEventDispatcher_def)

lemmas run_defs = svc_simps doubles_simps mock_NextID_def mock_Find_def mock_Store_def
  mock_Delete_def mock_Dispatch_def failing_Store_def failing_Delete_def failing_Dispatch_def
  time_Now_def new_Order_def assign_def CreateOrder_stores_def SetStatus_stores_def
  AddItem_stores_def DeleteItem_stores_def no_entropy_state_def test_state_def
  order_open_def order_paid_def order_cancelled_def order_deleted_def
  item_a_def item_b_def item_c_def

subsection \<open>What a successful run over the test collaborators has done\<close>

lemma CreateOrder_effects:
  "snd (outcome (CreateOrder setup_svc customerID s)) = None \<Longrightarrow>
     UpdatedAt (heap (after (CreateOrder setup_svc customerID s)) (nextref s)) = clock s 0
   \<and> length (dispatched (CreateOrder setup_svc customerID s)) = 1
   \<and> events (ext (after (CreateOrder setup_svc customerID s))) =
       events (ext s) @ dispatched (CreateOrder setup_svc customerID s)"
  by (cases "uuid_NewV7 (ext s) 0") (simp_all add: CreateOrder_mock_fail CreateOrder_mock_ok)

lemma SetStatus_effects:
  assumes "store (ext s) orderID = Some p"
    and "outcome (SetStatus setup_svc orderID status s) = None"
  shows "UpdatedAt (heap (after (SetStatus setup_svc orderID status s)) p) = clock s 0
   \<and> length (dispatched (SetStatus setup_svc orderID status s)) = 1
   \<and> events (ext (after (SetStatus setup_svc orderID status s))) =
       events (ext s) @ dispatched (SetStatus setup_svc orderID status s)"
proof -
  have live: "DeletedAt (heap s p) = None"
    using assms Find_fails_SetStatus [OF mock_Find_dead, of s orderID p status]
    by (cases "DeletedAt (heap s p)") auto
  have "Status (heap s p) \<noteq> Cancelled"
  proof
    assume "Status (heap s p) = Cancelled"
    with assms(1) live
    have "SetStatus setup_svc orderID status s = (Some ErrInvalidOrderStatus, s, [])"
      by (rule SetStatus_mock_cancelled)
    with assms(2) show False by simp
  qed
  with assms(1) live show ?thesis by (simp add: SetStatus_mock_live)
qed

lemma AddItem_effects:
  assumes "store (ext s) orderID = Some p"
    and "snd (outcome (AddItem setup_svc orderID productID price s)) = None"
  shows "UpdatedAt (heap (after (AddItem setup_svc orderID productID price s)) p) = clock s 0
   \<and> length (dispatched (AddItem setup_svc orderID productID price s)) = 1
   \<and> events (ext (after (AddItem setup_svc orderID productID price s))) =
       events (ext s) @ dispatched (AddItem setup_svc orderID productID price s)"
proof -
  have live: "DeletedAt (heap s p) = None"
    using assms Find_fails_AddItem [OF mock_Find_dead, of s orderID p productID price]
    by (cases "DeletedAt (heap s p)") auto
  have opn: "Status (heap s p) = Open"
  proof (rule ccontr)
    assume "Status (heap s p) \<noteq> Open"
    with assms(1) live
    have "AddItem setup_svc orderID productID price s =
        ((uuid_Nil, Some ErrInvalidOrderStatus), s, [])"
      by (rule AddItem_mock_not_open)
    with assms(2) show False by simp
  qed
  obtain itemID where "uuid_NewV7 (ext s) 0 = Inr itemID"
  proof (cases "uuid_NewV7 (ext s) 0")
    case (Inl err)
    with assms(1) live opn
    have "snd (outcome (AddItem setup_svc orderID productID price s)) = Some err"
      by (simp add: AddItem_def svc_simps mock_Find_live mock_NextID_def)
    with assms(2) show ?thesis by simp
  next
    case (Inr itemID)
    then show ?thesis by (rule that)
  qed
  with assms(1) live opn show ?thesis by (simp add: AddItem_mock_open)
qed

lemma DeleteItem_effects:
  assumes "store (ext s) orderID = Some p"
    and "outcome (DeleteItem setup_svc orderID itemID s) = None"
  shows "UpdatedAt (heap (after (DeleteItem setup_svc orderID itemID s)) p) = clock s 0
   \<and> length (dispatched (DeleteItem setup_svc orderID itemID s)) = 1
   \<and> events (ext (after (DeleteItem setup_svc orderID itemID s))) =
       events (ext s) @ dispatched (DeleteItem setup_svc orderID itemID s)"
proof -
  have live: "DeletedAt (heap s p) = None"
    using assms Find_fails_DeleteItem [OF mock_Find_dead, of s orderID p itemID]
    by (cases "DeletedAt (heap s p)") auto
  have opn: "Status (heap s p) = Open"
  proof (rule ccontr)
    assume "Status (heap s p) \<noteq> Open"
    with assms(1) live
    have "DeleteItem setup_svc orderID itemID s = (Some ErrInvalidOrderStatus, s, [])"
      by (simp add: DeleteItem_def svc_simps mock_Find_live)
    with assms(2) show False by simp
  qed
  have "itemID \<in> item_ID ` set (Items (heap s p))"
  proof (rule ccontr)
    assume "itemID \<notin> item_ID ` set (Items (heap s p))"
    with assms(1) live opn
    have "DeleteItem setup_svc orderID itemID s = (Some ErrItemNotFound, s, [])"
      by (rule DeleteItem_mock_absent)
    with assms(2) show False by simp
  qed
  then obtain ys it zs where "Items (heap s p) = ys @ it # zs" "item_ID it = itemID"
      "itemID \<notin> item_ID ` set ys"
    using first_match by blast
  with assms(1) live opn show ?thesis by (simp add: DeleteItem_mock_present)
qed

lemma DeleteOrder_effects:
  assumes "store (ext s) orderID = Some p"
    and "outcome (DeleteOrder setup_svc orderID s) = None"
  shows "DeletedAt (heap (after (DeleteOrder setup_svc orderID s)) p) = Some (clock s 0)
   \<and> UpdatedAt (heap (after (DeleteOrder setup_svc orderID s)) p) = UpdatedAt (heap s p)
   \<and> heap (after (DeleteOrder setup_svc orderID s)) p =
       (heap s p)\<lparr>DeletedAt := Some (clock s 0)\<rparr>
   \<and> length (dispatched (DeleteOrder setup_svc orderID s)) = 1
   \<and> events (ext (after (DeleteOrder setup_svc orderID s))) =
       events (ext s) @ dispatched (DeleteOrder setup_svc orderID s)"
proof -
  have live: "DeletedAt (heap s p) = None"
    using assms Find_fails_DeleteOrder [OF mock_Find_dead, of s orderID p]
    by (cases "DeletedAt (heap s p)") auto
  with assms(1) show ?thesis by (simp add: DeleteOrder_mock_live)
qed

section \<open>Creating an order\<close>



section \<open>Adding an item\<close>




section \<open>Changing the status\<close>



section \<open>Deleting an item\<close>

text \<open>
  C3. Over the collaborators of the test suite, for an \<open>Open\<close> order that the repository
  finds under \<open>orderID\<close> and an \<open>itemID\<close> that is the identifier of none of its items,
  \<open>DeleteItem\<close> fails with \<open>ErrItemNotFound\<close>, the state it leaves is the state it
  started from (the items and every other field of the order included), and no event is
  dispatched.
\<close>

theorem DeleteItem_unknown_item:
  assumes "store (ext s) orderID = Some p" and "DeletedAt (heap s p) = None"
    and "Status (heap s p) = Open"
    and "\<forall>item \<in> set (Items (heap s p)). item_ID item \<noteq> itemID"
  shows "DeleteItem setup_svc orderID itemID s = (Some ErrItemNotFound, s, [])"
proof -
  from assms(4) have "itemID \<notin> item_ID ` set (Items (heap s p))" by auto
  with assms(1-3) show ?thesis by (rule DeleteItem_mock_absent)
qed

theorem DeleteItem_unknown_item_witness:
  "store (ext test_state) 1 = Some 0 \<and> Status (heap test_state 0) = Open
   \<and> map item_ID (Items (heap test_state 0)) = [11, 12, 11]
   \<and> DeleteItem setup_svc 1 13 test_state = (Some ErrItemNotFound, test_state, [])"
  using DeleteItem_unknown_item [where s = test_state and orderID = 1 and p = 0
          and itemID = 13]
  by (simp add: test_state_def order_open_def item_a_def item_b_def item_c_def)

text \<open>
  C8. Over the collaborators of the test suite, for an \<open>Open\<close> order that the repository
  finds under \<open>orderID\<close> and an \<open>itemID\<close> that one of its items carries, \<open>DeleteItem\<close>
  succeeds; the items were \<open>ys @ it # zs\<close> with \<open>it\<close> carrying \<open>itemID\<close>, and are
  \<open>ys @ zs\<close> afterwards: one item fewer, the others in their former relative order.
\<close>

theorem DeleteItem_removes_one:
  assumes "store (ext s) orderID = Some p" and "DeletedAt (heap s p) = None"
    and "Status (heap s p) = Open"
    and "\<exists>item \<in> set (Items (heap s p)). item_ID item = itemID"
  shows "outcome (DeleteItem setup_svc orderID itemID s) = None
       \<and> (\<exists>ys it zs. Items (heap s p) = ys @ it # zs \<and> item_ID it = itemID
            \<and> Items (heap (after (DeleteItem setup_svc orderID itemID s)) p) = ys @ zs)
       \<and> Suc (length (Items (heap (after (DeleteItem setup_svc orderID itemID s)) p))) =
           length (Items (heap s p))
       \<and> subseq (Items (heap (after (DeleteItem setup_svc orderID itemID s)) p))
           (Items (heap s p))"
proof -
  from assms(4) have "itemID \<in> item_ID ` set (Items (heap s p))" by auto
  then obtain ys it zs where split: "Items (heap s p) = ys @ it # zs" "item_ID it = itemID"
      "itemID \<notin> item_ID ` set ys"
    using first_match by blast
  have run: "Items (heap (after (DeleteItem setup_svc orderID itemID s)) p) = ys @ zs"
      "outcome (DeleteItem setup_svc orderID itemID s) = None"
    using assms(1-3) split by (simp_all add: DeleteItem_mock_present)
  have "subseq zs (it # zs)" by (simp add: subseq_Cons')
  then have "subseq (ys @ zs) (ys @ it # zs)" by (simp add: list_emb_append_mono)
  with run split show ?thesis by auto
qed

theorem DeleteItem_removes_one_witness:
  "store (ext test_state) 1 = Some 0 \<and> Status (heap test_state 0) = Open
   \<and> Items (heap test_state 0) = [item_a, item_b, item_c] \<and> item_ID item_b = 12
   \<and> outcome (DeleteItem setup_svc 1 12 test_state) = None
   \<and> Items (heap (after (DeleteItem setup_svc 1 12 test_state)) 0) = [item_a, item_c]"
  using DeleteItem_removes_one [where s = test_state and orderID = 1 and p = 0 and itemID = 12]
  by (simp add: DeleteItem_def svc_simps mock_Find_def mock_Store_def mock_Dispatch_def
      time_Now_def assign_def test_state_def order_open_def item_a_def item_b_def item_c_def)

text \<open>
  C10. Over the collaborators of the test suite, for an \<open>Open\<close> order that the repository
  finds under \<open>orderID\<close> and whose items are \<open>ys @ it # zs\<close>, where no item of \<open>ys\<close>
  carries \<open>itemID\<close>, \<open>it\<close> does, and so does some item of \<open>zs\<close>: \<open>DeleteItem\<close> leaves
  \<open>ys @ zs\<close>. Only the first item carrying \<open>itemID\<close> is removed; every later one is
  still there, in its place.
\<close>

theorem DeleteItem_first_match_only:
  assumes "store (ext s) orderID = Some p" and "DeletedAt (heap s p) = None"
    and "Status (heap s p) = Open"
    and "Items (heap s p) = ys @ it # zs"
    and "\<forall>y \<in> set ys. item_ID y \<noteq> itemID" and "item_ID it = itemID"
    and "\<exists>z \<in> set zs. item_ID z = itemID"
  shows "outcome (DeleteItem setup_svc orderID itemID s) = None
       \<and> Items (heap (after (DeleteItem setup_svc orderID itemID s)) p) = ys @ zs
       \<and> filter (\<lambda>i. item_ID i = itemID)
           (Items (heap (after (DeleteItem setup_svc orderID itemID s)) p)) =
         filter (\<lambda>i. item_ID i = itemID) zs
       \<and> Suc (length (filter (\<lambda>i. item_ID i = itemID)
           (Items (heap (after (DeleteItem setup_svc orderID itemID s)) p)))) =
         length (filter (\<lambda>i. item_ID i = itemID) (Items (heap s p)))"
proof -
  from assms(5) have no: "itemID \<notin> item_ID ` set ys" by auto
  then have "filter (\<lambda>i. item_ID i = itemID) ys = []" by (auto simp add: filter_empty_conv)
  with assms(1-4,6) no show ?thesis by (simp add: DeleteItem_mock_present)
qed

theorem DeleteItem_first_match_only_witness:
  "store (ext test_state) 1 = Some 0 \<and> Status (heap test_state 0) = Open
   \<and> Items (heap test_state 0) = [item_a, item_b, item_c]
   \<and> item_ID item_a = 11 \<and> item_ID item_c = 11
   \<and> outcome (DeleteItem setup_svc 1 11 test_state) = None
   \<and> Items (heap (after (DeleteItem setup_svc 1 11 test_state)) 0) = [item_b, item_c]"
  using DeleteItem_first_match_only [where s = test_state and orderID = 1 and p = 0
          and itemID = 11 and ys = "[]" and it = item_a and zs = "[item_b, item_c]"]
  by (simp add: test_state_def order_open_def item_a_def item_b_def item_c_def)

section \<open>Soft-deleting an order\<close>

text \<open>
  C5. Over the collaborators of the test suite. When the repository has no record under
  \<open>orderID\<close> or the record is soft-deleted (\<open>missing\<close>), \<open>DeleteOrder\<close> fails with
  \<open>ErrOrderNotFound\<close>, changes nothing and dispatches nothing. When a lookup succeeded
  but the record is missing in the state \<open>s'\<close> it returns in (another caller deleted it
  in between), \<^verbatim>\<open>Delete\<close> checks again, fails with \<open>ErrOrderNotFound\<close>, and so does
  \<open>DeleteOrder\<close>, without an event. When the record is there and not soft-deleted,
  \<open>DeleteOrder\<close> succeeds: the record has \<open>DeletedAt\<close> set to the clock reading and is
  otherwise as before, it is still in the store, a later \<^verbatim>\<open>Find\<close> answers
  \<open>ErrOrderNotFound\<close>, and exactly one event \<open>OrderDeleted orderID\<close> is dispatched.
\<close>

theorem DeleteOrder_soft_delete:
  "(missing orderID s \<longrightarrow>
       DeleteOrder setup_svc orderID s = (Some ErrOrderNotFound, s, []))
   \<and> (lookup orderID s = (Inr q, s') \<and> missing orderID s' \<longrightarrow>
       mock_Delete orderID s' = (Some ErrOrderNotFound, s')
     \<and> DeleteOrder (NewOrderService (mockOrderRepository\<lparr>Find := lookup\<rparr>) mockEventDispatcher)
         orderID s = (Some ErrOrderNotFound, s', []))
   \<and> (store (ext s) orderID = Some p \<and> DeletedAt (heap s p) = None \<longrightarrow>
       outcome (DeleteOrder setup_svc orderID s) = None
     \<and> heap (after (DeleteOrder setup_svc orderID s)) =
         (heap s)(p := (heap s p)\<lparr>DeletedAt := Some (clock s 0)\<rparr>)
     \<and> store (ext (after (DeleteOrder setup_svc orderID s))) = store (ext s)
     \<and> DeletedAt (heap (after (DeleteOrder setup_svc orderID s)) p) \<noteq> None
     \<and> mock_Find orderID (after (DeleteOrder setup_svc orderID s)) =
         (Inl ErrOrderNotFound, after (DeleteOrder setup_svc orderID s))
     \<and> dispatched (DeleteOrder setup_svc orderID s) = [OrderDeleted orderID]
     \<and> events (ext (after (DeleteOrder setup_svc orderID s))) =
         events (ext s) @ [OrderDeleted orderID])"
proof (intro conjI impI)
  assume "missing orderID s"
  then have "Find (repo setup_svc) orderID s = (Inl ErrOrderNotFound, s)"
    by (simp add: svc_simps mock_Find_missing)
  then show "DeleteOrder setup_svc orderID s = (Some ErrOrderNotFound, s, [])"
    by (rule Find_fails_DeleteOrder)
next
  assume "lookup orderID s = (Inr q, s') \<and> missing orderID s'"
  then show "mock_Delete orderID s' = (Some ErrOrderNotFound, s')"
    by (simp add: mock_Delete_missing)
next
  assume "lookup orderID s = (Inr q, s') \<and> missing orderID s'"
  then show "DeleteOrder (NewOrderService (mockOrderRepository\<lparr>Find := lookup\<rparr>)
      mockEventDispatcher) orderID s = (Some ErrOrderNotFound, s', [])"
    by (simp add: DeleteOrder_def NewOrderService_def mockOrderRepository_def
        mock_Delete_missing)
qed (simp_all add: DeleteOrder_mock_live mock_Find_def)

theorem DeleteOrder_soft_delete_witness:
  "missing 4 test_state \<and> missing 5 test_state
   \<and> DeleteOrder setup_svc 4 test_state = (Some ErrOrderNotFound, test_state, [])
   \<and> DeleteOrder setup_svc 5 test_state = (Some ErrOrderNotFound, test_state, [])
   \<and> fst (racing_Find 1 test_state) = Inr 0
   \<and> missing 1 (snd (racing_Find 1 test_state))
   \<and> outcome (DeleteOrder (NewOrderService (mockOrderRepository\<lparr>Find := racing_Find\<rparr>)
         mockEventDispatcher) 1 test_state) = Some ErrOrderNotFound
   \<and> dispatched (DeleteOrder (NewOrderService (mockOrderRepository\<lparr>Find := racing_Find\<rparr>)
         mockEventDispatcher) 1 test_state) = []
   \<and> store (ext test_state) 1 = Some 0 \<and> DeletedAt (heap test_state 0) = None
   \<and> outcome (DeleteOrder setup_svc 1 test_state) = None
   \<and> DeletedAt (heap (after (DeleteOrder setup_svc 1 test_state)) 0) = Some 100
   \<and> store (ext (after (DeleteOrder setup_svc 1 test_state))) 1 = Some 0
   \<and> fst (mock_Find 1 (after (DeleteOrder setup_svc 1 test_state))) = Inl ErrOrderNotFound
   \<and> events (ext (after (DeleteOrder setup_svc 1 test_state))) = [OrderDeleted 1]"
  using DeleteOrder_soft_delete [where s = test_state and orderID = 4 and p = 3
          and lookup = racing_Find and q = 0 and s' = "snd (racing_Find 4 test_state)"]
        DeleteOrder_soft_delete [where s = test_state and orderID = 5 and p = 3
          and lookup = racing_Find and q = 0 and s' = "snd (racing_Find 5 test_state)"]
        DeleteOrder_soft_delete [where s = test_state and orderID = 1 and p = 0
          and lookup = racing_Find and q = 0 and s' = "snd (racing_Find 1 test_state)"]
  by (simp add: missing_def racing_Find_def mock_Find_def mock_Delete_def time_Now_def assign_def
      test_state_def order_open_def order_deleted_def)

section \<open>What every successful mutation does\<close>

text \<open>
  C4, as the claim states it, fails for \<open>DeleteOrder\<close>: on the sample state the
  soft delete of order 1 succeeds at clock reading 100 and leaves \<open>UpdatedAt\<close> at 20.
  The service does not touch the order in \<open>DeleteOrder\<close>, and \<^verbatim>\<open>Delete\<close> of the test
  repository writes \<open>DeletedAt\<close> only.
\<close>

theorem DeleteOrder_keeps_UpdatedAt_counterexample:
  "outcome (DeleteOrder setup_svc 1 test_state) = None
   \<and> clock test_state 0 = 100
   \<and> UpdatedAt (heap (after (DeleteOrder setup_svc 1 test_state)) 0) = 20
   \<and> UpdatedAt (heap (after (DeleteOrder setup_svc 1 test_state)) 0) \<noteq> clock test_state 0"
  by (simp add: DeleteOrder_def svc_simps mock_Find_def mock_Delete_def time_Now_def assign_def
      mock_Dispatch_def test_state_def order_open_def)

text \<open>
  C4, amended. Over the collaborators of the test suite, every operation that returns no
  error has dispatched exactly one event. \<open>CreateOrder\<close>, \<open>SetStatus\<close>, \<open>AddItem\<close> and
  \<open>DeleteItem\<close> have set \<open>UpdatedAt\<close> of the order to the clock reading; \<open>DeleteOrder\<close>
  has set \<open>DeletedAt\<close> to the clock reading and left \<open>UpdatedAt\<close> and the rest of the
  record as they were.
\<close>

theorem successful_mutation_effects:
  "(snd (outcome (CreateOrder setup_svc customerID s)) = None \<longrightarrow>
       UpdatedAt (heap (after (CreateOrder setup_svc customerID s)) (nextref s)) = clock s 0
     \<and> length (dispatched (CreateOrder setup_svc customerID s)) = 1
     \<and> events (ext (after (CreateOrder setup_svc customerID s))) =
         events (ext s) @ dispatched (CreateOrder setup_svc customerID s))
   \<and> (store (ext s) orderID = Some p \<longrightarrow>
       (outcome (SetStatus setup_svc orderID status s) = None \<longrightarrow>
          UpdatedAt (heap (after (SetStatus setup_svc orderID status s)) p) = clock s 0
        \<and> length (dispatched (SetStatus setup_svc orderID status s)) = 1
        \<and> events (ext (after (SetStatus setup_svc orderID status s))) =
            events (ext s) @ dispatched (SetStatus setup_svc orderID status s))
     \<and> (snd (outcome (AddItem setup_svc orderID productID price s)) = None \<longrightarrow>
          UpdatedAt (heap (after (AddItem setup_svc orderID productID price s)) p) = clock s 0
        \<and> length (dispatched (AddItem setup_svc orderID productID price s)) = 1
        \<and> events (ext (after (AddItem setup_svc orderID productID price s))) =
            events (ext s) @ dispatched (AddItem setup_svc orderID productID price s))
     \<and> (outcome (DeleteItem setup_svc orderID itemID s) = None \<longrightarrow>
          UpdatedAt (heap (after (DeleteItem setup_svc orderID itemID s)) p) = clock s 0
        \<and> length (dispatched (DeleteItem setup_svc orderID itemID s)) = 1
        \<and> events (ext (after (DeleteItem setup_svc orderID itemID s))) =
            events (ext s) @ dispatched (DeleteItem setup_svc orderID itemID s))
     \<and> (outcome (DeleteOrder setup_svc orderID s) = None \<longrightarrow>
          DeletedAt (heap (after (DeleteOrder setup_svc orderID s)) p) = Some (clock s 0)
        \<and> UpdatedAt (heap (after (DeleteOrder setup_svc orderID s)) p) = UpdatedAt (heap s p)
        \<and> heap (after (DeleteOrder setup_svc orderID s)) p =
            (heap s p)\<lparr>DeletedAt := Some (clock s 0)\<rparr>
        \<and> length (dispatched (DeleteOrder setup_svc orderID s)) = 1
        \<and> events (ext (after (DeleteOrder setup_svc orderID s))) =
            events (ext s) @ dispatched (DeleteOrder setup_svc orderID s)))"
  using CreateOrder_effects [of customerID s] SetStatus_effects [of s orderID p status]
    AddItem_effects [of s orderID p productID price] DeleteItem_effects [of s orderID p itemID]
    DeleteOrder_effects [of s orderID p]
  by blast

theorem successful_mutation_effects_witness:
  "store (ext test_state) 1 = Some 0
   \<and> outcome (CreateOrder setup_svc 9 test_state) = (50, None)
   \<and> UpdatedAt (heap (after (CreateOrder setup_svc 9 test_state)) 4) = 100
   \<and> dispatched (CreateOrder setup_svc 9 test_state) = [OrderCreated 50 9]
   \<and> outcome (SetStatus setup_svc 1 Paid test_state) = None
   \<and> UpdatedAt (heap (after (SetStatus setup_svc 1 Paid test_state)) 0) = 100
   \<and> dispatched (SetStatus setup_svc 1 Paid test_state) = [OrderStatusChanged 1 Paid]
   \<and> outcome (AddItem setup_svc 1 77 5 test_state) = (50, None)
   \<and> UpdatedAt (heap (after (AddItem setup_svc 1 77 5 test_state)) 0) = 100
   \<and> dispatched (AddItem setup_svc 1 77 5 test_state) = [OrderItemsChanged 1 [50] []]
   \<and> outcome (DeleteItem setup_svc 1 12 test_state) = None
   \<and> UpdatedAt (heap (after (DeleteItem setup_svc 1 12 test_state)) 0) = 100
   \<and> dispatched (DeleteItem setup_svc 1 12 test_state) = [OrderItemsChanged 1 [] [12]]
   \<and> outcome (DeleteOrder setup_svc 1 test_state) = None
   \<and> DeletedAt (heap (after (DeleteOrder setup_svc 1 test_state)) 0) = Some 100
   \<and> UpdatedAt (heap (after (DeleteOrder setup_svc 1 test_state)) 0) = 20
   \<and> dispatched (DeleteOrder setup_svc 1 test_state) = [OrderDeleted 1]"
  using successful_mutation_effects [where s = test_state and customerID = 9 and orderID = 1
      and p = 0 and status = Paid and productID = 77 and price = 5 and itemID = 12]
  by (simp add: CreateOrder_def SetStatus_def AddItem_def DeleteItem_def DeleteOrder_def
      svc_simps mock_Find_def mock_NextID_def mock_Store_def mock_Delete_def mock_Dispatch_def
      time_Now_def new_Order_def assign_def
      test_state_def order_open_def item_a_def item_b_def item_c_def)

section \<open>Failures of the collaborators\<close>

text \<open>
  C7. For any repository and any dispatcher, and for each of the five operations: when
  \<^verbatim>\<open>NextID\<close>, \<^verbatim>\<open>Find\<close>, \<^verbatim>\<open>Store\<close> or \<^verbatim>\<open>Delete\<close> returns an error, the operation
  returns that error, ends in the state that call left, and has dispatched no event; so
  an event is dispatched only after \<^verbatim>\<open>Store\<close> (for \<open>DeleteOrder\<close>: \<^verbatim>\<open>Delete\<close>) has
  succeeded. When \<^verbatim>\<open>Dispatch\<close> returns an error after that, the operation returns this
  error and ends in the state \<^verbatim>\<open>Dispatch\<close> left: it calls the repository no more, and
  what was stored stays stored.
\<close>

theorem dispatch_only_after_persistence:
  fixes svc :: "'x orderService"
  shows
   "(NextID (repo svc) s = (Inl e, sa) \<longrightarrow>
        CreateOrder svc customerID s = ((uuid_Nil, Some e), sa, []))
   \<and> (NextID (repo svc) s = (Inr newID, sa) \<and>
      Store (repo svc) (fst (CreateOrder_stores newID customerID sa))
        (snd (CreateOrder_stores newID customerID sa)) = (Some e, sb) \<longrightarrow>
        CreateOrder svc customerID s = ((uuid_Nil, Some e), sb, []))
   \<and> (NextID (repo svc) s = (Inr newID, sa) \<and>
      Store (repo svc) (fst (CreateOrder_stores newID customerID sa))
        (snd (CreateOrder_stores newID customerID sa)) = (None, sb) \<and>
      Dispatch (dispatcher svc) (OrderCreated newID customerID) sb = (Some e, sc) \<longrightarrow>
        CreateOrder svc customerID s = ((newID, Some e), sc, [OrderCreated newID customerID]))
   \<and> (Find (repo svc) orderID s = (Inl e, sa) \<longrightarrow>
        DeleteOrder svc orderID s = (Some e, sa, []))
   \<and> (Find (repo svc) orderID s = (Inr order, sa) \<and>
      Delete (repo svc) orderID sa = (Some e, sb) \<longrightarrow>
        DeleteOrder svc orderID s = (Some e, sb, []))
   \<and> (Find (repo svc) orderID s = (Inr order, sa) \<and>
      Delete (repo svc) orderID sa = (None, sb) \<and>
      Dispatch (dispatcher svc) (OrderDeleted orderID) sb = (Some e, sc) \<longrightarrow>
        DeleteOrder svc orderID s = (Some e, sc, [OrderDeleted orderID]))
   \<and> (Find (repo svc) orderID s = (Inl e, sa) \<longrightarrow>
        SetStatus svc orderID status s = (Some e, sa, []))
   \<and> (Find (repo svc) orderID s = (Inr order, sa) \<and> Status (heap sa order) \<noteq> Cancelled \<and>
      Store (repo svc) order (SetStatus_stores order status sa) = (Some e, sb) \<longrightarrow>
        SetStatus svc orderID status s = (Some e, sb, []))
   \<and> (Find (repo svc) orderID s = (Inr order, sa) \<and> Status (heap sa order) \<noteq> Cancelled \<and>
      Store (repo svc) order (SetStatus_stores order status sa) = (None, sb) \<and>
      Dispatch (dispatcher svc) (OrderStatusChanged orderID status) sb = (Some e, sc) \<longrightarrow>
        SetStatus svc orderID status s = (Some e, sc, [OrderStatusChanged orderID status]))
   \<and> (Find (repo svc) orderID s = (Inl e, sa) \<longrightarrow>
        AddItem svc orderID productID price s = ((uuid_Nil, Some e), sa, []))
   \<and> (Find (repo svc) orderID s = (Inr order, sa) \<and> Status (heap sa order) = Open \<and>
      NextID (repo svc) sa = (Inl e, sb) \<longrightarrow>
        AddItem svc orderID productID price s = ((uuid_Nil, Some e), sb, []))
   \<and> (Find (repo svc) orderID s = (Inr order, sa) \<and> Status (heap sa order) = Open \<and>
      NextID (repo svc) sa = (Inr itemID, sb) \<and>
      Store (repo svc) order (AddItem_stores order itemID productID price sb) = (Some e, sc)
      \<longrightarrow>
        AddItem svc orderID productID price s = ((uuid_Nil, Some e), sc, []))
   \<and> (Find (repo svc) orderID s = (Inr order, sa) \<and> Status (heap sa order) = Open \<and>
      NextID (repo svc) sa = (Inr itemID, sb) \<and>
      Store (repo svc) order (AddItem_stores order itemID productID price sb) = (None, sc) \<and>
      Dispatch (dispatcher svc) (OrderItemsChanged orderID [itemID] []) sc = (Some e, sd) \<longrightarrow>
        AddItem svc orderID productID price s =
          ((itemID, Some e), sd, [OrderItemsChanged orderID [itemID] []]))
   \<and> (Find (repo svc) orderID s = (Inl e, sa) \<longrightarrow>
        DeleteItem svc orderID itemID s = (Some e, sa, []))
   \<and> (Find (repo svc) orderID s = (Inr order, sa) \<and> Status (heap sa order) = Open \<and>
      (\<exists>item \<in> set (Items (heap sa order)). item_ID item = itemID) \<and>
      Store (repo svc) order (DeleteItem_stores order itemID sa) = (Some e, sb) \<longrightarrow>
        DeleteItem svc orderID itemID s = (Some e, sb, []))
   \<and> (Find (repo svc) orderID s = (Inr order, sa) \<and> Status (heap sa order) = Open \<and>
      (\<exists>item \<in> set (Items (heap sa order)). item_ID item = itemID) \<and>
      Store (repo svc) order (DeleteItem_stores order itemID sa) = (None, sb) \<and>
      Dispatch (dispatcher svc) (OrderItemsChanged orderID [] [itemID]) sb = (Some e, sc) \<longrightarrow>
        DeleteItem svc orderID itemID s = (Some e, sc, [OrderItemsChanged orderID [] [itemID]]))"
  using CreateOrder_steps [where svc = svc and s = s and e = e and sa = sa
        and customerID = customerID and newID = newID and sb = sb and derr = "Some e"
        and sc = sc]
    DeleteOrder_steps [where svc = svc and s = s and e = e and sa = sa
        and orderID = orderID and order = order and sb = sb and derr = "Some e" and sc = sc]
    SetStatus_steps [where svc = svc and s = s and e = e and sa = sa
        and orderID = orderID and status = status and order = order and sb = sb
        and derr = "Some e" and sc = sc]
    AddItem_steps [where svc = svc and s = s and e = e and sa = sa
        and orderID = orderID and productID = productID and price = price and order = order
        and sb = sb and itemID = itemID and sc = sc and derr = "Some e" and sd = sd]
    DeleteItem_steps [where svc = svc and s = s and e = e and sa = sa
        and orderID = orderID and itemID = itemID and order = order and sb = sb
        and derr = "Some e" and sc = sc]
  by (intro conjI) (elim conjE, assumption)+

theorem dispatch_only_after_persistence_witness:
  "CreateOrder setup_svc 9 no_entropy_state =
     ((uuid_Nil, Some (ErrOther ''no entropy'')), snd (mock_NextID no_entropy_state), [])
   \<and> outcome (CreateOrder svc_failing_store 9 test_state) =
       (uuid_Nil, Some (ErrOther ''store failed''))
   \<and> dispatched (CreateOrder svc_failing_store 9 test_state) = []
   \<and> outcome (CreateOrder svc_failing_dispatch 9 test_state) =
       (50, Some (ErrOther ''dispatch failed''))
   \<and> fst (mock_Find 50 (after (CreateOrder svc_failing_dispatch 9 test_state))) = Inr 4
   \<and> DeleteOrder setup_svc 5 test_state = (Some ErrOrderNotFound, test_state, [])
   \<and> DeleteOrder svc_failing_store 1 test_state =
       (Some (ErrOther ''delete failed''), test_state, [])
   \<and> outcome (DeleteOrder svc_failing_dispatch 1 test_state) =
       Some (ErrOther ''dispatch failed'')
   \<and> DeletedAt (heap (after (DeleteOrder svc_failing_dispatch 1 test_state)) 0) = Some 100
   \<and> outcome (SetStatus svc_failing_store 1 Paid test_state) = Some (ErrOther ''store failed'')
   \<and> dispatched (SetStatus svc_failing_store 1 Paid test_state) = []
   \<and> outcome (SetStatus svc_failing_dispatch 1 Paid test_state) =
       Some (ErrOther ''dispatch failed'')
   \<and> Status (heap (after (SetStatus svc_failing_dispatch 1 Paid test_state)) 0) = Paid
   \<and> outcome (AddItem setup_svc 1 77 5 no_entropy_state) =
       (uuid_Nil, Some (ErrOther ''no entropy''))
   \<and> dispatched (AddItem setup_svc 1 77 5 no_entropy_state) = []
   \<and> outcome (AddItem svc_failing_store 1 77 5 test_state) =
       (uuid_Nil, Some (ErrOther ''store failed''))
   \<and> dispatched (AddItem svc_failing_store 1 77 5 test_state) = []
   \<and> outcome (AddItem svc_failing_dispatch 1 77 5 test_state) =
       (50, Some (ErrOther ''dispatch failed''))
   \<and> length (Items (heap (after (AddItem svc_failing_dispatch 1 77 5 test_state)) 0)) = 4
   \<and> outcome (DeleteItem svc_failing_store 1 12 test_state) = Some (ErrOther ''store failed'')
   \<and> dispatched (DeleteItem svc_failing_store 1 12 test_state) = []
   \<and> outcome (DeleteItem svc_failing_dispatch 1 12 test_state) =
       Some (ErrOther ''dispatch failed'')
   \<and> Items (heap (after (DeleteItem svc_failing_dispatch 1 12 test_state)) 0) =
       [item_a, item_c]"
proof -
  define sa where "sa = snd (mock_NextID test_state)"
  define sn where "sn = snd (mock_NextID no_entropy_state)"
  define cs where "cs = snd (CreateOrder_stores 50 9 sa)"
  define cp where "cp = fst (CreateOrder_stores 50 9 sa)"
  define ss where "ss = SetStatus_stores 0 Paid test_state"
  define as where "as = AddItem_stores 0 50 77 5 sa"
  define ds where "ds = DeleteItem_stores 0 12 test_state"
  note defs = sa_def sn_def cs_def cp_def ss_def as_def ds_def
  have c1: "CreateOrder setup_svc 9 no_entropy_state =
      ((uuid_Nil, Some (ErrOther ''no entropy'')), sn, [])"
    using dispatch_only_after_persistence [where svc = setup_svc and s = no_entropy_state
        and customerID = 9 and e = "ErrOther ''no entropy''" and sa = sn,
        THEN conjunct1]
    by (simp add: defs run_defs)
  have c2: "CreateOrder svc_failing_store 9 test_state =
      ((uuid_Nil, Some (ErrOther ''store failed'')), cs, [])"
    using dispatch_only_after_persistence [where svc = svc_failing_store and s = test_state
        and customerID = 9 and newID = 50 and e = "ErrOther ''store failed''" and sa = sa
        and sb = cs,
        THEN conjunct2, THEN conjunct1]
    by (simp add: defs run_defs)
  have c3: "CreateOrder svc_failing_dispatch 9 test_state =
      ((50, Some (ErrOther ''dispatch failed'')), snd (mock_Store cp cs), [OrderCreated 50 9])"
    using dispatch_only_after_persistence [where svc = svc_failing_dispatch and s = test_state
        and customerID = 9 and newID = 50 and e = "ErrOther ''dispatch failed''" and sa = sa
        and sb = "snd (mock_Store cp cs)" and sc = "snd (mock_Store cp cs)",
        THEN conjunct2, THEN conjunct2, THEN conjunct1]
    by (simp add: defs run_defs)
  have d1: "DeleteOrder setup_svc 5 test_state = (Some ErrOrderNotFound, test_state, [])"
    using dispatch_only_after_persistence [where svc = setup_svc and s = test_state
        and orderID = 5 and e = ErrOrderNotFound and sa = test_state,
        THEN conjunct2, THEN conjunct2, THEN conjunct2, THEN conjunct1]
    by (simp add: defs run_defs)
  have d2: "DeleteOrder svc_failing_store 1 test_state =
      (Some (ErrOther ''delete failed''), test_state, [])"
    using dispatch_only_after_persistence [where svc = svc_failing_store and s = test_state
        and orderID = 1 and order = 0 and e = "ErrOther ''delete failed''" and sa = test_state
        and sb = test_state,
        THEN conjunct2, THEN conjunct2, THEN conjunct2, THEN conjunct2, THEN conjunct1]
    by (simp add: defs run_defs)
  have d3: "DeleteOrder svc_failing_dispatch 1 test_state =
      (Some (ErrOther ''dispatch failed''), snd (mock_Delete 1 test_state), [OrderDeleted 1])"
    using dispatch_only_after_persistence [where svc = svc_failing_dispatch and s = test_state
        and orderID = 1 and order = 0 and e = "ErrOther ''dispatch failed''"
        and sa = test_state and sb = "snd (mock_Delete 1 test_state)"
        and sc = "snd (mock_Delete 1 test_state)",
        THEN conjunct2, THEN conjunct2, THEN conjunct2, THEN conjunct2, THEN conjunct2, THEN conjunct1]
    by (simp add: defs run_defs)
  have s1: "SetStatus setup_svc 5 Paid test_state = (Some ErrOrderNotFound, test_state, [])"
    using dispatch_only_after_persistence [where svc = setup_svc and s = test_state
        and orderID = 5 and status = Paid and e = ErrOrderNotFound and sa = test_state,
        THEN conjunct2, THEN conjunct2, THEN conjunct2, THEN conjunct2, THEN conjunct2, THEN conjunct2, THEN conjunct1]
    by (simp add: defs run_defs)
  have s2: "SetStatus svc_failing_store 1 Paid test_state =
      (Some (ErrOther ''store failed''), ss, [])"
    using dispatch_only_after_persistence [where svc = svc_failing_store and s = test_state
        and orderID = 1 and order = 0 and status = Paid and e = "ErrOther ''store failed''"
        and sa = test_state and sb = ss,
        THEN conjunct2, THEN conjunct2, THEN conjunct2, THEN conjunct2, THEN conjunct2, THEN conjunct2, THEN conjunct2, THEN conjunct1]
    by (simp add: defs run_defs)
  have s3: "SetStatus svc_failing_dispatch 1 Paid test_state =
      (Some (ErrOther ''dispatch failed''), snd (mock_Store 0 ss), [OrderStatusChanged 1 Paid])"
    using dispatch_only_after_persistence [where svc = svc_failing_dispatch and s = test_state
        and orderID = 1 and order = 0 and status = Paid and e = "ErrOther ''dispatch failed''"
        and sa = test_state and sb = "snd (mock_Store 0 ss)" and sc = "snd (mock_Store 0 ss)",
        THEN conjunct2, THEN conjunct2, THEN conjunct2, THEN conjunct2, THEN conjunct2, THEN conjunct2, THEN conjunct2, THEN conjunct2, THEN conjunct1]
    by (simp add: defs run_defs)
  have a0: "AddItem setup_svc 5 77 5 test_state =
      ((uuid_Nil, Some ErrOrderNotFound), test_state, [])"
    using dispatch_only_after_persistence [where svc = setup_svc and s = test_state
        and orderID = 5 and productID = 77 and price = 5 and e = ErrOrderNotFound
        and sa = test_state,
        THEN conjunct2, THEN conjunct2, THEN conjunct2, THEN conjunct2, THEN conjunct2, THEN conjunct2, THEN conjunct2, THEN conjunct2, THEN conjunct2, THEN conjunct1]
    by (simp add: defs run_defs)
  have a1: "AddItem setup_svc 1 77 5 no_entropy_state =
      ((uuid_Nil, Some (ErrOther ''no entropy'')), sn, [])"
    using dispatch_only_after_persistence [where svc = setup_svc and s = no_entropy_state
        and orderID = 1 and order = 0 and productID = 77 and price = 5
        and e = "ErrOther ''no entropy''" and sa = no_entropy_state and sb = sn,
        THEN conjunct2, THEN conjunct2, THEN conjunct2, THEN conjunct2, THEN conjunct2, THEN conjunct2, THEN conjunct2, THEN conjunct2, THEN conjunct2, THEN conjunct2, THEN conjunct1]
    by (simp add: defs run_defs)
  have a2: "AddItem svc_failing_store 1 77 5 test_state =
      ((uuid_Nil, Some (ErrOther ''store failed'')), as, [])"
    using dispatch_only_after_persistence [where svc = svc_failing_store and s = test_state
        and orderID = 1 and order = 0 and productID = 77 and price = 5 and itemID = 50
        and e = "ErrOther ''store failed''" and sa = test_state and sb = sa and sc = as,
        THEN conjunct2, THEN conjunct2, THEN conjunct2, THEN conjunct2, THEN conjunct2, THEN conjunct2, THEN conjunct2, THEN conjunct2, THEN conjunct2, THEN conjunct2, THEN conjunct2, THEN conjunct1]
    by (simp add: defs run_defs)
  have a3: "AddItem svc_failing_dispatch 1 77 5 test_state =
      ((50, Some (ErrOther ''dispatch failed'')), snd (mock_Store 0 as),
       [OrderItemsChanged 1 [50] []])"
    using dispatch_only_after_persistence [where svc = svc_failing_dispatch and s = test_state
        and orderID = 1 and order = 0 and productID = 77 and price = 5 and itemID = 50
        and e = "ErrOther ''dispatch failed''" and sa = test_state and sb = sa
        and sc = "snd (mock_Store 0 as)" and sd = "snd (mock_Store 0 as)",
        THEN conjunct2, THEN conjunct2, THEN conjunct2, THEN conjunct2, THEN conjunct2, THEN conjunct2, THEN conjunct2, THEN conjunct2, THEN conjunct2, THEN conjunct2, THEN conjunct2, THEN conjunct2, THEN conjunct1]
    by (simp add: defs run_defs)
  have i1: "DeleteItem setup_svc 5 12 test_state = (Some ErrOrderNotFound, test_state, [])"
    using dispatch_only_after_persistence [where svc = setup_svc and s = test_state
        and orderID = 5 and itemID = 12 and e = ErrOrderNotFound and sa = test_state,
        THEN conjunct2, THEN conjunct2, THEN conjunct2, THEN conjunct2, THEN conjunct2, THEN conjunct2, THEN conjunct2, THEN conjunct2, THEN conjunct2, THEN conjunct2, THEN conjunct2, THEN conjunct2, THEN conjunct2, THEN conjunct1]
    by (simp add: defs run_defs)
  have i2: "DeleteItem svc_failing_store 1 12 test_state =
      (Some (ErrOther ''store failed''), ds, [])"
    using dispatch_only_after_persistence [where svc = svc_failing_store and s = test_state
        and orderID = 1 and order = 0 and itemID = 12 and e = "ErrOther ''store failed''"
        and sa = test_state and sb = ds,
        THEN conjunct2, THEN conjunct2, THEN conjunct2, THEN conjunct2, THEN conjunct2, THEN conjunct2, THEN conjunct2, THEN conjunct2, THEN conjunct2, THEN conjunct2, THEN conjunct2, THEN conjunct2, THEN conjunct2, THEN conjunct2, THEN conjunct1]
    by (simp add: defs run_defs)
  have i3: "DeleteItem svc_failing_dispatch 1 12 test_state =
      (Some (ErrOther ''dispatch failed''), snd (mock_Store 0 ds),
       [OrderItemsChanged 1 [] [12]])"
    using dispatch_only_after_persistence [where svc = svc_failing_dispatch and s = test_state
        and orderID = 1 and order = 0 and itemID = 12 and e = "ErrOther ''dispatch failed''"
        and sa = test_state and sb = "snd (mock_Store 0 ds)" and sc = "snd (mock_Store 0 ds)",
        THEN conjunct2, THEN conjunct2, THEN conjunct2, THEN conjunct2, THEN conjunct2, THEN conjunct2, THEN conjunct2, THEN conjunct2, THEN conjunct2, THEN conjunct2, THEN conjunct2, THEN conjunct2, THEN conjunct2, THEN conjunct2, THEN conjunct2]
    by (simp add: defs run_defs)
  show ?thesis
    by (simp add: c1 c2 c3 d1 d2 d3 s1 s2 s3 a0 a1 a2 a3 i1 i2 i3) (simp add: defs run_defs)
qed

text \<open>
  C9. For any repository and any dispatcher: when \<^verbatim>\<open>NextID\<close> has returned a (non-nil)
  identifier, \<^verbatim>\<open>Store\<close> has succeeded and \<^verbatim>\<open>Dispatch\<close> then returns an error,
  \<open>CreateOrder\<close> returns the new order identifier together with that error, and
  \<open>AddItem\<close> the new item identifier together with that error: an identifier that is
  not nil and an error that is not nil, in one result.
\<close>

theorem identifier_returned_with_dispatch_error:
  fixes svc :: "'x orderService"
  shows
   "(NextID (repo svc) s = (Inr newID, sa) \<and> newID \<noteq> uuid_Nil \<and>
      Store (repo svc) (fst (CreateOrder_stores newID customerID sa))
        (snd (CreateOrder_stores newID customerID sa)) = (None, sb) \<and>
      Dispatch (dispatcher svc) (OrderCreated newID customerID) sb = (Some e, sc) \<longrightarrow>
        outcome (CreateOrder svc customerID s) = (newID, Some e)
      \<and> fst (outcome (CreateOrder svc customerID s)) \<noteq> uuid_Nil
      \<and> snd (outcome (CreateOrder svc customerID s)) \<noteq> None)
   \<and> (Find (repo svc) orderID s = (Inr order, sa) \<and> Status (heap sa order) = Open \<and>
      NextID (repo svc) sa = (Inr itemID, sb) \<and> itemID \<noteq> uuid_Nil \<and>
      Store (repo svc) order (AddItem_stores order itemID productID price sb) = (None, sc) \<and>
      Dispatch (dispatcher svc) (OrderItemsChanged orderID [itemID] []) sc = (Some e, sd) \<longrightarrow>
        outcome (AddItem svc orderID productID price s) = (itemID, Some e)
      \<and> fst (outcome (AddItem svc orderID productID price s)) \<noteq> uuid_Nil
      \<and> snd (outcome (AddItem svc orderID productID price s)) \<noteq> None)"
  using CreateOrder_steps [where svc = svc and s = s and sa = sa
        and customerID = customerID and newID = newID and sb = sb and derr = "Some e"
        and sc = sc]
    AddItem_steps [where svc = svc and s = s and sa = sa
        and orderID = orderID and productID = productID and price = price and order = order
        and sb = sb and itemID = itemID and sc = sc and derr = "Some e" and sd = sd]
  by simp

theorem identifier_returned_with_dispatch_error_witness:
  "outcome (CreateOrder svc_failing_dispatch 9 test_state) =
     (50, Some (ErrOther ''dispatch failed''))
   \<and> (50 :: uuid) \<noteq> uuid_Nil
   \<and> fst (mock_Find 50 (after (CreateOrder svc_failing_dispatch 9 test_state))) = Inr 4
   \<and> outcome (AddItem svc_failing_dispatch 1 77 5 test_state) =
     (50, Some (ErrOther ''dispatch failed''))
   \<and> Items (heap (after (AddItem svc_failing_dispatch 1 77 5 test_state)) 0) =
     [item_a, item_b, item_c, \<lparr>item_ID = 50, ProductID = 77, Price = 5\<rparr>]"
proof -
  define sa where "sa = snd (mock_NextID test_state)"
  define cs where "cs = snd (CreateOrder_stores 50 9 sa)"
  define cp where "cp = fst (CreateOrder_stores 50 9 sa)"
  define as where "as = AddItem_stores 0 50 77 5 sa"
  note defs = sa_def cs_def cp_def as_def
  have c: "outcome (CreateOrder svc_failing_dispatch 9 test_state) =
      (50, Some (ErrOther ''dispatch failed''))"
    using identifier_returned_with_dispatch_error [where svc = svc_failing_dispatch
        and s = test_state and customerID = 9 and newID = 50
        and e = "ErrOther ''dispatch failed''" and sa = sa
        and sb = "snd (mock_Store cp cs)" and sc = "snd (mock_Store cp cs)",
        THEN conjunct1]
    by (simp add: defs run_defs uuid_Nil_def)
  have a: "outcome (AddItem svc_failing_dispatch 1 77 5 test_state) =
      (50, Some (ErrOther ''dispatch failed''))"
    using identifier_returned_with_dispatch_error [where svc = svc_failing_dispatch
        and s = test_state and orderID = 1 and order = 0 and productID = 77 and price = 5
        and itemID = 50 and e = "ErrOther ''dispatch failed''" and sa = test_state and sb = sa
        and sc = "snd (mock_Store 0 as)" and sd = "snd (mock_Store 0 as)",
        THEN conjunct2]
    by (simp add: defs run_defs uuid_Nil_def)
  have run: "after (CreateOrder svc_failing_dispatch 9 test_state) = snd (mock_Store cp cs)"
      "after (AddItem svc_failing_dispatch 1 77 5 test_state) = snd (mock_Store 0 as)"
    by (simp_all add: CreateOrder_def AddItem_def defs run_defs)
  show ?thesis
    by (simp add: c a run) (simp add: defs run_defs uuid_Nil_def)
qed

end
